theory Spec2Isabelle
  imports Main
begin

section \<open>The limited-support delete command (cmd/cluster/support/delete.go)\<close>

text \<open>
  The command resolves a token, builds a connection, asks for confirmation, fetches the
  cluster, builds a DELETE request, sends it and interprets the response. Everything it
  calls outside \<^verbatim>\<open>delete.go\<close> (the OCM SDK, \<^verbatim>\<open>encoding/json\<close>, the path-argument
  encoder, \<^verbatim>\<open>confirmSend\<close> and \<^verbatim>\<open>sendRequest\<close> of the same package) is a field of
  the environment record below: the model fixes what \<^verbatim>\<open>delete.go\<close> does with their
  answers, not the answers.
\<close>

subsection \<open>Values\<close>

text \<open>
  A Go \<^verbatim>\<open>error\<close>. \<open>ExternalError\<close> is an error made outside this file;
  \<open>Errorf f args\<close> is \<^verbatim>\<open>fmt.Errorf(f, args...)\<close> with the format string kept as
  written and its verbs left unexpanded.
\<close>

datatype goerror = ExternalError string | Errorf string "fmtarg list"
  and fmtarg = ErrArg goerror | StrArg string

text \<open>\<^verbatim>\<open>sdk.Response\<close>: only the status code and the raw body are read.\<close>

record response =
  Status :: int
  Bytes :: string

text \<open>\<^verbatim>\<open>http.StatusNoContent\<close>.\<close>

definition StatusNoContent :: int where
  "StatusNoContent = 204"

text \<open>
  \<^verbatim>\<open>sdk.Connection\<close>, known by the token it was built with, and \<^verbatim>\<open>sdk.Request\<close>:
  the connection that made it, its HTTP method, and the string the path-argument encoder
  was given for it (\<open>None\<close> before any was applied).
\<close>

datatype connection = Connection string

datatype http_method = DELETE

record request =
  sender :: connection
  verb :: http_method
  path_arg :: "string option"

text \<open>
  What the process shows to the outside, in order: calls into the collaborators and
  output on the two streams. A format string is recorded with its arguments.
\<close>

datatype event =
    CallGetOCMAccessToken
  | LogFatalf string
  | CallBuild string
  | Fprintf_Stderr string "fmtarg list"
  | Printf string "fmtarg list"
  | CallConfirmSend
  | CallClusterGet string
  | CallApplyPathArg string
  | CallSendRequest "request option"
  | CallClose

text \<open>
  How a Go function call ends: it returns its \<^verbatim>\<open>error\<close> result (\<open>None\<close> is
  \<^verbatim>\<open>nil\<close>), the process is ended by \<^verbatim>\<open>os.Exit\<close>, or it panics.
\<close>

datatype outcome = Returned "goerror option" | Exited int | Panicked

subsection \<open>checkDelete (lines 151-168)\<close>

text \<open>
  The argument is a pointer: \<open>None\<close> is \<^verbatim>\<open>nil\<close>. The first statement reads
  \<^verbatim>\<open>response.Bytes()\<close>, a field of the receiver, so a nil response panics before any
  branch is taken. \<open>valid\<close> is \<^verbatim>\<open>json.Valid\<close>; \<open>unmarshal\<close> is
  \<^verbatim>\<open>json.Unmarshal\<close> into a \<^verbatim>\<open>*support.BadReply\<close>, giving the decoded reply or the
  decoder's error.
\<close>

fun checkDelete ::
  "(string \<Rightarrow> bool) \<Rightarrow> (string \<Rightarrow> goerror + 'r) \<Rightarrow> response option \<Rightarrow> event list \<times> outcome"
where
  "checkDelete valid unmarshal None = ([], Panicked)"
| "checkDelete valid unmarshal (Some response) =
     (let body = Bytes response in
      if Status response = StatusNoContent then
        ([Printf ''Limited support reason deleted successfully\<newline>'' []],
         Returned None)
      else if \<not> valid body then
        ([], Returned (Some (Errorf ''server returned invalid JSON'' [])))
      else
        (case unmarshal body of
           Inl err \<Rightarrow>
             ([], Returned (Some (Errorf ''cannot parse the error JSON meessage: %q'' [ErrArg err])))
         | Inr badReply \<Rightarrow> ([], Returned None)))"

subsection \<open>The collaborators\<close>

text \<open>
  \<^verbatim>\<open>v1.Cluster\<close>: the command reads its canonical ID and nothing else; the record is
  extensible, so a cluster with any further fields is a \<open>cluster_scheme\<close>.
\<close>

record cluster =
  ID :: string

text \<open>
  \<^verbatim>\<open>confirmSend\<close> is called as a statement, so a value it returns is dropped; it may
  also end the process itself. \<^verbatim>\<open>sendRequest\<close> hands back a response pointer and an
  error, either of which may be nil, or panics (it is also called with a nil request).
\<close>

datatype confirm_outcome = ConfirmReturns "goerror option" | ConfirmExits int

datatype send_outcome = SendReturns "response option" "goerror option" | SendPanics

text \<open>
  The environment of one invocation: the package variable \<^verbatim>\<open>isDryRun\<close> and the answers
  of everything \<^verbatim>\<open>delete.go\<close> calls. \<open>Build\<close> and \<open>ApplyPathArg\<close> give the error they
  return, if any; \<open>GetOCMAccessToken\<close> and \<open>ClusterGet\<close> give an error or a value.
\<close>

record 'r env =
  isDryRun :: bool
  Getenv :: "string \<Rightarrow> string"
  GetOCMAccessToken :: "goerror + string"
  Build :: "string \<Rightarrow> goerror option"
  confirmSend :: confirm_outcome
  ClusterGet :: "string \<Rightarrow> goerror + cluster"
  ApplyPathArg :: "string \<Rightarrow> goerror option"
  sendRequest :: "request option \<Rightarrow> send_outcome"
  json_Valid :: "string \<Rightarrow> bool"
  json_Unmarshal :: "string \<Rightarrow> goerror + 'r"

text \<open>\<^verbatim>\<open>deleteOptions\<close>, without the I/O streams and the global options.\<close>

record deleteOptions =
  output_field :: string
  verbose :: bool
  clusterID :: string
  limitedSupportReasonID :: string

subsection \<open>createDeleteRequest (lines 137-147)\<close>

text \<open>
  \<^verbatim>\<open>ocmClient.Delete()\<close> makes a DELETE request of the connection with no path yet;
  \<^verbatim>\<open>arguments.ApplyPathArg\<close> either fails or applies the string it is given.
  The result is Go's pair: (request, nil) or (nil, error).
\<close>

definition ocmClient_Delete :: "connection \<Rightarrow> request" where
  "ocmClient_Delete c = \<lparr>sender = c, verb = DELETE, path_arg = None\<rparr>"

definition createDeleteRequest ::
  "(string \<Rightarrow> goerror option) \<Rightarrow> connection \<Rightarrow> 'a cluster_scheme \<Rightarrow> string
     \<Rightarrow> event list \<times> request option \<times> goerror option"
where
  "createDeleteRequest applyPathArg ocmClient cluster reasonID =
     (let targetAPIPath =
            ''/api/clusters_mgmt/v1/clusters/'' @ ID cluster
              @ ''/limited_support_reasons/'' @ reasonID;
          request = ocmClient_Delete ocmClient
      in case applyPathArg targetAPIPath of
           Some err \<Rightarrow>
             ([CallApplyPathArg targetAPIPath], None,
              Some (Errorf ''cannot parse API path '%s': %v'' [StrArg targetAPIPath, ErrArg err]))
         | None \<Rightarrow>
             ([CallApplyPathArg targetAPIPath],
              Some (request\<lparr>path_arg := Some targetAPIPath\<rparr>), None))"

subsection \<open>run (lines 79-134)\<close>

text \<open>
  Lines 84-92: the token from the environment variable, else from the fallback lookup;
  \<^verbatim>\<open>log.Fatalf\<close> writes its message and ends the process with status 1.
\<close>

definition resolveToken :: "'r env \<Rightarrow> event list \<times> (outcome + string)" where
  "resolveToken env =
     (let token = Getenv env ''OCM_TOKEN'' in
      if token = [] then
        (case GetOCMAccessToken env of
           Inl err \<Rightarrow>
             ([CallGetOCMAccessToken,
               LogFatalf ''OCM token not set. Please configure by using the OCM_TOKEN environment variable or the ocm cli''],
              Inl (Exited 1))
         | Inr ocmToken \<Rightarrow> ([CallGetOCMAccessToken], Inr ocmToken))
      else ([], Inr token))"

text \<open>
  A deferred call runs when the function returns or panics, and does not run when
  \<^verbatim>\<open>os.Exit\<close> ends the process.
\<close>

definition with_defer :: "event \<Rightarrow> event list \<times> outcome \<Rightarrow> event list \<times> outcome" where
  "with_defer d r =
     (case snd r of
        Exited n \<Rightarrow> r
      | Returned e \<Rightarrow> (fst r @ [d], Returned e)
      | Panicked \<Rightarrow> (fst r @ [d], Panicked))"

text \<open>
  The pattern \<^verbatim>\<open>if err != nil { fmt.Printf(format, err) }\<close> of lines 120-122,
  124-126 and 129-131: the error is printed and nothing else happens.
\<close>

definition printf_if_err :: "string \<Rightarrow> goerror option \<Rightarrow> event list" where
  "printf_if_err format err =
     (case err of Some e \<Rightarrow> [Printf format [ErrArg e]] | None \<Rightarrow> [])"

text \<open>Lines 102-133: the statements of \<^verbatim>\<open>run\<close> after \<^verbatim>\<open>defer connection.Close()\<close>.\<close>

definition run_deferred :: "'r env \<Rightarrow> deleteOptions \<Rightarrow> connection \<Rightarrow> event list \<times> outcome" where
  "run_deferred env ops connection =
     (if isDryRun env then ([], Returned None)
      else
        (case confirmSend env of
           ConfirmExits n \<Rightarrow> ([CallConfirmSend], Exited n)
         | ConfirmReturns dropped \<Rightarrow>
        (case ClusterGet env (clusterID ops) of
           Inl err \<Rightarrow>
             ([CallConfirmSend, CallClusterGet (clusterID ops),
               Fprintf_Stderr ''Can't retrieve cluster: %v\<newline>'' [ErrArg err]],
              Exited 1)
         | Inr cluster \<Rightarrow>
        (case createDeleteRequest (ApplyPathArg env) connection cluster
                (limitedSupportReasonID ops) of
           (built, deleteRequest, err1) \<Rightarrow>
        (let tr1 = [CallConfirmSend, CallClusterGet (clusterID ops)] @ built
                   @ printf_if_err ''failed post call %q\<newline>'' err1
                   @ [CallSendRequest deleteRequest]
         in case sendRequest env deleteRequest of
              SendPanics \<Rightarrow> (tr1, Panicked)
            | SendReturns deleteResponse err2 \<Rightarrow>
        (let tr2 = tr1
                   @ printf_if_err ''Failed to get delete call response: %q\<newline>'' err2
         in case checkDelete (json_Valid env) (json_Unmarshal env) deleteResponse of
              (checked, Returned err3) \<Rightarrow>
                (tr2 @ checked @ printf_if_err ''check for delete call failed: %q'' err3,
                 Returned None)
            | (checked, stopped) \<Rightarrow> (tr2 @ checked, stopped)))))))"

text \<open>Lines 79-100, then the rest under the deferred \<^verbatim>\<open>Close\<close>.\<close>

definition run :: "'r env \<Rightarrow> deleteOptions \<Rightarrow> event list \<times> outcome" where
  "run env ops =
     (case resolveToken env of
        (tr0, Inl stopped) \<Rightarrow> (tr0, stopped)
      | (tr0, Inr token) \<Rightarrow>
          (case Build env token of
             Some err \<Rightarrow>
               (tr0 @ [CallBuild token,
                       Fprintf_Stderr ''Can't build connection: %v\<newline>'' [ErrArg err]],
                Exited 1)
           | None \<Rightarrow>
               (let connection = Connection token;
                    r = with_defer CallClose (run_deferred env ops connection)
                in (tr0 @ [CallBuild token] @ fst r, snd r))))"

subsection \<open>Order of events\<close>

text \<open>
  The events that belong to the delete itself, and the traces in which none of them
  comes before the first call of \<^verbatim>\<open>confirmSend\<close>.
\<close>

fun is_delete_step :: "event \<Rightarrow> bool" where
  "is_delete_step (CallApplyPathArg path) = True"
| "is_delete_step (CallSendRequest request) = True"
| "is_delete_step _ = False"

fun confirmed_first :: "event list \<Rightarrow> bool" where
  "confirmed_first [] = True"
| "confirmed_first (e # es) =
     (if e = CallConfirmSend then True else \<not> is_delete_step e \<and> confirmed_first es)"

subsection \<open>Concrete invocations\<close>

text \<open>
  An invocation in which every step succeeds: the token comes from the environment
  variable, the user confirms, the cluster is found and the service answers 204. The
  others differ from it in one field.
\<close>

definition ops_example :: deleteOptions where
  "ops_example =
     \<lparr>output_field = [], verbose = False, clusterID = ''c1'',
      limitedSupportReasonID = ''r1''\<rparr>"

definition env_success :: "string env" where
  "env_success =
     \<lparr>isDryRun = False,
      Getenv = (\<lambda>name. if name = ''OCM_TOKEN'' then ''tok'' else []),
      GetOCMAccessToken = Inl (ExternalError ''no ocm configuration''),
      Build = (\<lambda>token. None),
      confirmSend = ConfirmReturns None,
      ClusterGet = (\<lambda>cid. Inr \<lparr>ID = ''id-'' @ cid\<rparr>),
      ApplyPathArg = (\<lambda>path. None),
      sendRequest = (\<lambda>rq. SendReturns (Some \<lparr>Status = 204, Bytes = []\<rparr>) None),
      json_Valid = (\<lambda>body. False),
      json_Unmarshal = (\<lambda>body. Inl (ExternalError ''unexpected end of JSON input''))\<rparr>"

definition env_dry_run :: "string env" where
  "env_dry_run = env_success\<lparr>isDryRun := True\<rparr>"

definition env_cluster_fetch_fails :: "string env" where
  "env_cluster_fetch_fails =
     env_success\<lparr>ClusterGet := (\<lambda>cid. Inl (ExternalError ''status is 404''))\<rparr>"

definition env_send_fails :: "string env" where
  "env_send_fails =
     env_success\<lparr>sendRequest :=
       (\<lambda>rq. SendReturns None (Some (ExternalError ''cannot send request'')))\<rparr>"


definition env_all_reported :: "string env" where
  "env_all_reported =
     env_success
       \<lparr>ApplyPathArg := (\<lambda>path. Some (ExternalError ''invalid URL escape'')),
        sendRequest :=
          (\<lambda>rq. SendReturns (Some \<lparr>Status = 400, Bytes = ''not-json''\<rparr>)
                  (Some (ExternalError ''cannot send request'')))\<rparr>"

section \<open>Properties of the response interpreter\<close>

text \<open>
  C1. A response whose status is not 204 and whose body is valid JSON that decodes into
  the error record makes \<open>checkDelete\<close> return no error and print nothing: the decoded
  reply does not appear in the result.
\<close>

theorem checkDelete_parsed_reply_discarded:
  assumes "Status response \<noteq> 204"
    and "valid (Bytes response)"
    and "unmarshal (Bytes response) = Inr badReply"
  shows "checkDelete valid unmarshal (Some response) = ([], Returned None)"
  using assms by (simp add: StatusNoContent_def)

theorem checkDelete_parsed_reply_discarded_witness:
  "Status \<lparr>Status = 400, Bytes = ''{}''\<rparr> \<noteq> 204 \<and>
   (\<lambda>b. True) (Bytes \<lparr>Status = 400, Bytes = ''{}''\<rparr>) \<and>
   checkDelete (\<lambda>b. True) (\<lambda>b. Inr b) (Some \<lparr>Status = 400, Bytes = ''{}''\<rparr>)
     = ([], Returned None)"
  using checkDelete_parsed_reply_discarded
    [of "\<lparr>Status = 400, Bytes = ''{}''\<rparr>" "\<lambda>b. True" "\<lambda>b. Inr b" "''{}''"]
  by simp

text \<open>
  C2. A response with status 204 makes \<open>checkDelete\<close> print the success message and
  return no error, whatever the body is and whatever the JSON functions say about it.
\<close>

theorem checkDelete_no_content:
  assumes "Status response = 204"
  shows "checkDelete valid unmarshal (Some response)
           = ([Printf ''Limited support reason deleted successfully\<newline>'' []],
              Returned None)"
  using assms by (simp add: StatusNoContent_def)

theorem checkDelete_no_content_witness:
  "Status \<lparr>Status = 204, Bytes = ''not-json''\<rparr> = 204 \<and>
   checkDelete (\<lambda>b. False) (\<lambda>b. Inl (ExternalError ''unexpected end of JSON input''))
       (Some \<lparr>Status = 204, Bytes = ''not-json''\<rparr>)
     = ([Printf ''Limited support reason deleted successfully\<newline>'' []],
        Returned None)"
  using checkDelete_no_content
    [of "\<lparr>Status = 204, Bytes = ''not-json''\<rparr>" "\<lambda>b. False"
        "\<lambda>b. Inl (ExternalError ''unexpected end of JSON input'')"]
  by simp

text \<open>
  C6. A response whose status is not 204 and whose body is not valid JSON makes
  \<open>checkDelete\<close> return the error "server returned invalid JSON".
\<close>

theorem checkDelete_invalid_json:
  assumes "Status response \<noteq> 204"
    and "\<not> valid (Bytes response)"
  shows "checkDelete valid unmarshal (Some response)
           = ([], Returned (Some (Errorf ''server returned invalid JSON'' [])))"
  using assms by (simp add: StatusNoContent_def)

theorem checkDelete_invalid_json_witness:
  "Status \<lparr>Status = 400, Bytes = ''not-json''\<rparr> \<noteq> 204 \<and>
   checkDelete (\<lambda>b. False) (\<lambda>b. Inl (ExternalError ''invalid character''))
       (Some \<lparr>Status = 400, Bytes = ''not-json''\<rparr>)
     = ([], Returned (Some (Errorf ''server returned invalid JSON'' [])))"
  using checkDelete_invalid_json
    [of "\<lparr>Status = 400, Bytes = ''not-json''\<rparr>" "\<lambda>b. False"
        "\<lambda>b. Inl (ExternalError ''invalid character'')"]
  by simp

text \<open>
  C7. A response whose status is not 204 and whose body is valid JSON that the decoder
  rejects makes \<open>checkDelete\<close> return the parse error, with the decoder's error as the
  argument of its format.
\<close>

theorem checkDelete_unmarshal_failure:
  assumes "Status response \<noteq> 204"
    and "valid (Bytes response)"
    and "unmarshal (Bytes response) = Inl err"
  shows "checkDelete valid unmarshal (Some response)
           = ([], Returned (Some (Errorf ''cannot parse the error JSON meessage: %q''
                                    [ErrArg err])))"
  using assms by (simp add: StatusNoContent_def)

theorem checkDelete_unmarshal_failure_witness:
  "Status \<lparr>Status = 400, Bytes = ''[1]''\<rparr> \<noteq> 204 \<and>
   checkDelete (\<lambda>b. True)
       (\<lambda>b. Inl (ExternalError ''json: cannot unmarshal array into Go value of type support.BadReply''))
       (Some \<lparr>Status = 400, Bytes = ''[1]''\<rparr>)
     = ([], Returned (Some (Errorf ''cannot parse the error JSON meessage: %q''
          [ErrArg (ExternalError
             ''json: cannot unmarshal array into Go value of type support.BadReply'')])))"
  using checkDelete_unmarshal_failure
    [of "\<lparr>Status = 400, Bytes = ''[1]''\<rparr>" "\<lambda>b. True"
        "\<lambda>b. Inl (ExternalError ''json: cannot unmarshal array into Go value of type support.BadReply'')"
        "ExternalError ''json: cannot unmarshal array into Go value of type support.BadReply''"]
  by simp

section \<open>Properties of the request builder\<close>



section \<open>Properties of the orchestrator\<close>

subsection \<open>Auxiliary facts\<close>

lemma resolveToken_cases:
  "resolveToken env = ([], Inr (Getenv env ''OCM_TOKEN'')) \<or>
   (\<exists>tok. resolveToken env = ([CallGetOCMAccessToken], Inr tok)) \<or>
   (\<exists>msg. resolveToken env = ([CallGetOCMAccessToken, LogFatalf msg], Inl (Exited 1)))"
  by (simp add: resolveToken_def Let_def split: sum.splits)

lemma checkDelete_Some_returns:
  "\<exists>err. snd (checkDelete valid unmarshal (Some response)) = Returned err"
  by (simp add: Let_def split: sum.splits)

lemma with_defer_fst:
  "fst (with_defer d r) = fst r \<or> fst (with_defer d r) = fst r @ [d]"
  by (simp add: with_defer_def split: outcome.splits)

text \<open>
  The whole of a run that gets as far as sending: the events in order, and how it ends.
\<close>

lemma run_reaches_delete:
  assumes "\<not> isDryRun env"
    and "resolveToken env = (tr0, Inr token)"
    and "Build env token = None"
    and "confirmSend env = ConfirmReturns dropped"
    and "ClusterGet env (clusterID ops) = Inr cluster"
    and "createDeleteRequest (ApplyPathArg env) (Connection token) cluster
           (limitedSupportReasonID ops) = (built, deleteRequest, err1)"
    and "sendRequest env deleteRequest = SendReturns deleteResponse err2"
  shows "run env ops =
           (tr0 @ [CallBuild token, CallConfirmSend, CallClusterGet (clusterID ops)] @ built
              @ printf_if_err ''failed post call %q\<newline>'' err1
              @ [CallSendRequest deleteRequest]
              @ printf_if_err ''Failed to get delete call response: %q\<newline>'' err2
              @ fst (checkDelete (json_Valid env) (json_Unmarshal env) deleteResponse)
              @ (case snd (checkDelete (json_Valid env) (json_Unmarshal env) deleteResponse) of
                   Returned err3 \<Rightarrow> printf_if_err ''check for delete call failed: %q'' err3
                 | _ \<Rightarrow> [])
              @ [CallClose],
            case snd (checkDelete (json_Valid env) (json_Unmarshal env) deleteResponse) of
              Returned err3 \<Rightarrow> Returned None
            | stopped \<Rightarrow> stopped)"
proof (cases deleteResponse)
  case None
  with assms show ?thesis
    by (simp add: run_def run_deferred_def with_defer_def Let_def)
next
  case (Some response)
  obtain checked err3 where
    "checkDelete (json_Valid env) (json_Unmarshal env) (Some response)
       = (checked, Returned err3)"
    using checkDelete_Some_returns [of "json_Valid env" "json_Unmarshal env" response]
    by (metis prod.collapse)
  with assms Some show ?thesis
    by (simp add: run_def run_deferred_def with_defer_def Let_def)
qed

text \<open>
  No step of the delete (building the request, sending it) comes before the first
  confirmation in a trace.
\<close>

lemma confirmed_firstD:
  "confirmed_first tr \<Longrightarrow> tr = pre @ ev # post \<Longrightarrow> is_delete_step ev
     \<Longrightarrow> CallConfirmSend \<in> set pre"
proof (induction tr arbitrary: pre)
  case Nil
  then show ?case by simp
next
  case (Cons e es)
  show ?case
  proof (cases pre)
    case Nil
    with Cons.prems show ?thesis by (auto split: if_splits)
  next
    case (Cons p ps)
    with Cons.prems Cons.IH [of ps] show ?thesis by (auto split: if_splits)
  qed
qed

lemma run_deferred_confirmed_first:
  "confirmed_first rest \<Longrightarrow> confirmed_first (fst (run_deferred env ops connection) @ rest)"
  by (simp add: run_deferred_def Let_def
      split: confirm_outcome.splits sum.splits prod.splits send_outcome.splits outcome.splits)

lemma run_confirmed_first: "confirmed_first (fst (run env ops))"
proof -
  have d: "confirmed_first (fst (with_defer CallClose (run_deferred env ops c)))" for c
    using with_defer_fst [of CallClose "run_deferred env ops c"]
      run_deferred_confirmed_first [of "[]" env ops c]
      run_deferred_confirmed_first [of "[CallClose]" env ops c]
    by auto
  show ?thesis
    using resolveToken_cases [of env] d
    by (auto simp add: run_def Let_def split: option.splits)
qed

lemma dry_run_no_delete_step:
  assumes "isDryRun env" and "ev \<in> set (fst (run env ops))"
  shows "\<not> is_delete_step ev"
  using assms resolveToken_cases [of env]
  by (auto simp add: run_def run_deferred_def with_defer_def split: option.splits)

subsection \<open>Dry run\<close>

text \<open>
  C4. With the dry-run flag set, \<open>run\<close> never prompts for confirmation, never looks the
  cluster up, and never builds or sends the DELETE request; and once the session is
  built (the token is resolved and the connection builds) it does nothing more than
  close the connection and return no error.
\<close>

theorem run_dry_run:
  assumes "isDryRun env"
  shows "CallConfirmSend \<notin> set (fst (run env ops)) \<and>
         (\<forall>cid. CallClusterGet cid \<notin> set (fst (run env ops))) \<and>
         (\<forall>path. CallApplyPathArg path \<notin> set (fst (run env ops))) \<and>
         (\<forall>request. CallSendRequest request \<notin> set (fst (run env ops))) \<and>
         (\<forall>tr0 token. resolveToken env = (tr0, Inr token) \<and> Build env token = None \<longrightarrow>
            run env ops = (tr0 @ [CallBuild token, CallClose], Returned None))"
  using assms resolveToken_cases [of env]
  by (auto simp add: run_def run_deferred_def with_defer_def split: option.splits)

theorem run_dry_run_witness:
  "isDryRun env_dry_run \<and>
   resolveToken env_dry_run = ([], Inr ''tok'') \<and> Build env_dry_run ''tok'' = None \<and>
   run env_dry_run ops_example = ([CallBuild ''tok'', CallClose], Returned None) \<and>
   CallConfirmSend \<notin> set (fst (run env_dry_run ops_example))"
  using run_dry_run [of env_dry_run ops_example]
  by (simp add: env_dry_run_def env_success_def resolveToken_def)

subsection \<open>Release of the connection\<close>

text \<open>
  C5. The claim is that the connection is closed on every exit path. When the cluster
  lookup fails, \<open>run\<close> writes its diagnostic and ends the process with status 1, and the
  deferred \<open>Close\<close> has not run: the trace of that invocation has no \<open>CallClose\<close>.
\<close>

theorem run_cluster_fetch_failure_not_closed:
  "run env_cluster_fetch_fails ops_example =
     ([CallBuild ''tok'', CallConfirmSend, CallClusterGet ''c1'',
       Fprintf_Stderr ''Can't retrieve cluster: %v\<newline>''
         [ErrArg (ExternalError ''status is 404'')]],
      Exited 1) \<and>
   CallClose \<notin> set (fst (run env_cluster_fetch_fails ops_example))"
  by (simp add: run_def run_deferred_def with_defer_def resolveToken_def
      env_cluster_fetch_fails_def env_success_def ops_example_def)

text \<open>
  What does hold: once the connection is built, \<open>Close\<close> is the last event of every run
  that returns or panics, and is missing from every run that \<open>os.Exit\<close> ends.
\<close>

lemma checkDelete_no_close:
  "checkDelete valid unmarshal resp = (tr, out) \<Longrightarrow> CallClose \<notin> set tr"
  by (cases resp) (auto simp add: Let_def split: sum.splits if_splits)

lemma createDeleteRequest_no_close:
  "createDeleteRequest ap c cl rid = (tr, rq, e) \<Longrightarrow> CallClose \<notin> set tr"
  by (auto simp add: createDeleteRequest_def Let_def split: option.splits)

lemma printf_if_err_no_close: "CallClose \<notin> set (printf_if_err f e)"
  by (simp add: printf_if_err_def split: option.splits)

lemma run_deferred_no_close: "CallClose \<notin> set (fst (run_deferred env ops c))"
  by (auto simp add: run_deferred_def Let_def printf_if_err_no_close
      dest: checkDelete_no_close createDeleteRequest_no_close
      split: confirm_outcome.splits sum.splits prod.splits send_outcome.splits outcome.splits)

lemma run_closed_iff_not_exited:
  assumes "resolveToken env = (tr0, Inr token)" and "Build env token = None"
  shows "(case snd (run env ops) of
            Exited n \<Rightarrow> CallClose \<notin> set (fst (run env ops))
          | _ \<Rightarrow> last (fst (run env ops)) = CallClose)"
proof -
  have b: "CallClose \<notin> set tr0"
    using assms(1) resolveToken_cases [of env] by auto
  show ?thesis
    using assms run_deferred_no_close [of env ops "Connection token"] b
    by (cases "snd (run_deferred env ops (Connection token))")
       (simp_all add: run_def with_defer_def Let_def)
qed

subsection \<open>Confirmation before the delete\<close>

text \<open>
  C8. In every trace of \<open>run\<close>, building the delete request (the call of the path
  encoder) and sending it come after the call of \<open>confirmSend\<close>, and happen only when
  the dry-run flag is not set.
\<close>

theorem run_confirm_before_delete:
  assumes "fst (run env ops) = pre @ ev # post"
    and "ev = CallApplyPathArg path \<or> ev = CallSendRequest request"
  shows "CallConfirmSend \<in> set pre \<and> \<not> isDryRun env"
proof
  from assms(2) have step: "is_delete_step ev" by auto
  from run_confirmed_first [of env ops] assms(1) step
  show "CallConfirmSend \<in> set pre" by (rule confirmed_firstD)
  from assms(1) have "ev \<in> set (fst (run env ops))" by simp
  with step show "\<not> isDryRun env" using dry_run_no_delete_step by blast
qed

theorem run_confirm_before_delete_witness:
  "fst (run env_success ops_example) =
     [CallBuild ''tok'', CallConfirmSend, CallClusterGet ''c1'',
      CallApplyPathArg ''/api/clusters_mgmt/v1/clusters/id-c1/limited_support_reasons/r1'']
     @ CallSendRequest
         (Some \<lparr>sender = Connection ''tok'', verb = DELETE,
                path_arg =
                  Some ''/api/clusters_mgmt/v1/clusters/id-c1/limited_support_reasons/r1''\<rparr>)
     # [Printf ''Limited support reason deleted successfully\<newline>'' [], CallClose] \<and>
   CallConfirmSend \<in> set
     [CallBuild ''tok'', CallConfirmSend, CallClusterGet ''c1'',
      CallApplyPathArg ''/api/clusters_mgmt/v1/clusters/id-c1/limited_support_reasons/r1''] \<and>
   \<not> isDryRun env_success"
  using run_confirm_before_delete
    [of env_success ops_example
        "[CallBuild ''tok'', CallConfirmSend, CallClusterGet ''c1'',
          CallApplyPathArg ''/api/clusters_mgmt/v1/clusters/id-c1/limited_support_reasons/r1'']"
        "CallSendRequest
           (Some \<lparr>sender = Connection ''tok'', verb = DELETE,
                  path_arg =
                    Some ''/api/clusters_mgmt/v1/clusters/id-c1/limited_support_reasons/r1''\<rparr>)"
        "[Printf ''Limited support reason deleted successfully\<newline>'' [], CallClose]"]
  by (simp add: run_def run_deferred_def with_defer_def resolveToken_def
      createDeleteRequest_def ocmClient_Delete_def printf_if_err_def Let_def StatusNoContent_def
      env_success_def ops_example_def)

subsection \<open>Failures that are reported and passed over\<close>




text \<open>
  The same with every stage failing and a response still handed back: three messages,
  then the connection is closed and \<open>run\<close> returns no error.
\<close>

lemma run_all_reported:
  "run env_all_reported ops_example =
     ([CallBuild ''tok'', CallConfirmSend, CallClusterGet ''c1'',
       CallApplyPathArg ''/api/clusters_mgmt/v1/clusters/id-c1/limited_support_reasons/r1'',
       Printf ''failed post call %q\<newline>''
         [ErrArg (Errorf ''cannot parse API path '%s': %v''
            [StrArg ''/api/clusters_mgmt/v1/clusters/id-c1/limited_support_reasons/r1'',
             ErrArg (ExternalError ''invalid URL escape'')])],
       CallSendRequest None,
       Printf ''Failed to get delete call response: %q\<newline>''
         [ErrArg (ExternalError ''cannot send request'')],
       Printf ''check for delete call failed: %q''
         [ErrArg (Errorf ''server returned invalid JSON'' [])],
       CallClose],
      Returned None)"
  by (simp add: run_def run_deferred_def with_defer_def resolveToken_def
      createDeleteRequest_def ocmClient_Delete_def printf_if_err_def Let_def
      StatusNoContent_def env_all_reported_def env_success_def ops_example_def)

subsection \<open>A failed send and the nil response\<close>

text \<open>
  C10. When \<open>sendRequest\<close> returns an error, \<open>run\<close> prints it and goes on to call
  \<open>checkDelete\<close> on the response it got, nil or not. \<open>checkDelete\<close> has no branch for a
  nil response: it panics there, returning neither an error nor nil, and so does \<open>run\<close>
  (after the deferred \<open>Close\<close>).
\<close>

theorem run_send_failure_reaches_checkDelete:
  assumes "\<not> isDryRun env"
    and "resolveToken env = (tr0, Inr token)"
    and "Build env token = None"
    and "confirmSend env = ConfirmReturns dropped"
    and "ClusterGet env (clusterID ops) = Inr cluster"
    and "createDeleteRequest (ApplyPathArg env) (Connection token) cluster
           (limitedSupportReasonID ops) = (built, deleteRequest, err1)"
    and "sendRequest env deleteRequest = SendReturns deleteResponse (Some err2)"
  shows "fst (run env ops) =
           tr0 @ [CallBuild token, CallConfirmSend, CallClusterGet (clusterID ops)] @ built
             @ printf_if_err ''failed post call %q\<newline>'' err1
             @ [CallSendRequest deleteRequest,
                Printf ''Failed to get delete call response: %q\<newline>'' [ErrArg err2]]
             @ fst (checkDelete (json_Valid env) (json_Unmarshal env) deleteResponse)
             @ (case snd (checkDelete (json_Valid env) (json_Unmarshal env) deleteResponse) of
                  Returned err3 \<Rightarrow> printf_if_err ''check for delete call failed: %q'' err3
                | _ \<Rightarrow> [])
             @ [CallClose] \<and>
         checkDelete (json_Valid env) (json_Unmarshal env) None = ([], Panicked) \<and>
         (deleteResponse = None \<longrightarrow>
            run env ops =
              (tr0 @ [CallBuild token, CallConfirmSend, CallClusterGet (clusterID ops)] @ built
                 @ printf_if_err ''failed post call %q\<newline>'' err1
                 @ [CallSendRequest deleteRequest,
                    Printf ''Failed to get delete call response: %q\<newline>'' [ErrArg err2],
                    CallClose],
               Panicked))"
  unfolding run_reaches_delete [OF assms]
  by (simp add: printf_if_err_def)

theorem run_send_failure_reaches_checkDelete_witness:
  "\<not> isDryRun env_send_fails \<and>
   resolveToken env_send_fails = ([], Inr ''tok'') \<and>
   Build env_send_fails ''tok'' = None \<and>
   confirmSend env_send_fails = ConfirmReturns None \<and>
   ClusterGet env_send_fails (clusterID ops_example) = Inr \<lparr>ID = ''id-c1''\<rparr> \<and>
   sendRequest env_send_fails
     (Some \<lparr>sender = Connection ''tok'', verb = DELETE,
            path_arg = Some ''/api/clusters_mgmt/v1/clusters/id-c1/limited_support_reasons/r1''\<rparr>)
     = SendReturns None (Some (ExternalError ''cannot send request'')) \<and>
   checkDelete (json_Valid env_send_fails) (json_Unmarshal env_send_fails) None
     = ([], Panicked) \<and>
   run env_send_fails ops_example =
     ([CallBuild ''tok'', CallConfirmSend, CallClusterGet ''c1'',
       CallApplyPathArg ''/api/clusters_mgmt/v1/clusters/id-c1/limited_support_reasons/r1'',
       CallSendRequest
         (Some \<lparr>sender = Connection ''tok'', verb = DELETE,
                path_arg =
                  Some ''/api/clusters_mgmt/v1/clusters/id-c1/limited_support_reasons/r1''\<rparr>),
       Printf ''Failed to get delete call response: %q\<newline>''
         [ErrArg (ExternalError ''cannot send request'')],
       CallClose],
      Panicked)"
  using run_send_failure_reaches_checkDelete
    [of env_send_fails "[]" "''tok''" None ops_example "\<lparr>ID = ''id-c1''\<rparr>"
        "[CallApplyPathArg ''/api/clusters_mgmt/v1/clusters/id-c1/limited_support_reasons/r1'']"
        "Some \<lparr>sender = Connection ''tok'', verb = DELETE,
               path_arg =
                 Some ''/api/clusters_mgmt/v1/clusters/id-c1/limited_support_reasons/r1''\<rparr>"
        None None "ExternalError ''cannot send request''"]
  by (simp add: resolveToken_def createDeleteRequest_def ocmClient_Delete_def printf_if_err_def
      Let_def env_send_fails_def env_success_def ops_example_def)

end
